theory Spec2Isabelle
  imports Complex_Main
begin

section \<open>JavaScript strings and numbers used by the sources\<close>

text \<open>
  Strings are \<^typ>\<open>string\<close>. A JavaScript number that holds an integer is modelled by that
  integer; the model is exact on the safe integers (absolute value below \<open>2 ^ 53\<close>), where
  doubles and integers agree, and on the powers of ten used below.
\<close>

definition digitChar :: "nat \<Rightarrow> char" where
  "digitChar d = ''0123456789'' ! d"

text \<open>The decimal digits of a natural number; \<open>digitChar\<close> is only applied below 10.\<close>

fun natToDigits :: "nat \<Rightarrow> string" where
  "natToDigits n = (if n < 10 then [digitChar n] else natToDigits (n div 10) @ [digitChar (n mod 10)])"

declare natToDigits.simps [simp del]

fun stripTrailingZeros :: "string \<Rightarrow> string" where
  "stripTrailingZeros s = rev (dropWhile (\<lambda>c. c = CHR ''0'') (rev s))"

text \<open>
  \<open>Number.prototype.toString\<close> on an integer value: decimal digits below \<open>10 ^ 21\<close>, and
  from \<open>10 ^ 21\<close> on the exponential notation \<open>d.ddde+n\<close> (ECMAScript Number::toString).
\<close>

definition exponentialNotation :: "nat \<Rightarrow> string" where
  "exponentialNotation n =
     (let ds = natToDigits n;
          s = stripTrailingZeros ds;
          mantissa = (case s of [] \<Rightarrow> [] | [d] \<Rightarrow> [d] | d # r \<Rightarrow> d # CHR ''.'' # r)
      in mantissa @ ''e+'' @ natToDigits (length ds - 1))"

definition numberToString :: "int \<Rightarrow> string" where
  "numberToString x =
     (let n = nat \<bar>x\<bar>;
          body = (if n < 10 ^ 21 then natToDigits n else exponentialNotation n)
      in if x < 0 then CHR ''-'' # body else body)"

datatype jsnumber = NaN | Num int

definition isWhiteSpace :: "char \<Rightarrow> bool" where
  "isWhiteSpace c = (c \<in> set [CHR '' '', CHR 0x09, CHR 0x0A, CHR 0x0B, CHR 0x0C, CHR 0x0D])"

definition radixDigitValue :: "char \<Rightarrow> nat option" where
  "radixDigitValue c =
     (let k = (of_char c :: nat)
      in if 48 \<le> k \<and> k \<le> 57 then Some (k - 48)
         else if 97 \<le> k \<and> k \<le> 122 then Some (k - 87)
         else if 65 \<le> k \<and> k \<le> 90 then Some (k - 55)
         else None)"

definition isRadixDigit :: "nat \<Rightarrow> char \<Rightarrow> bool" where
  "isRadixDigit radix c = (case radixDigitValue c of None \<Rightarrow> False | Some v \<Rightarrow> v < radix)"

definition digitsValue :: "nat \<Rightarrow> string \<Rightarrow> nat" where
  "digitsValue radix ds = foldl (\<lambda>acc c. acc * radix + (case radixDigitValue c of None \<Rightarrow> 0 | Some v \<Rightarrow> v)) 0 ds"

text \<open>
  \<open>parseInt(string)\<close> with no radix argument: leading white space is skipped (here the
  ASCII white space), a sign is read, a \<open>0x\<close> or \<open>0X\<close> prefix selects radix 16, the longest
  run of digits is converted, and the result is \<open>NaN\<close> when that run is empty.
\<close>

definition parseInt :: "string \<Rightarrow> jsnumber" where
  "parseInt s =
     (let t = dropWhile isWhiteSpace s;
          (sign, u) = (case t of
                         c # r \<Rightarrow> if c = CHR ''-'' then (- 1 :: int, r)
                                  else if c = CHR ''+'' then (1, r) else (1, t)
                       | [] \<Rightarrow> (1, t));
          (radix, v) = (case u of
                          z # x # r \<Rightarrow> if z = CHR ''0'' \<and> (x = CHR ''x'' \<or> x = CHR ''X'')
                                      then (16 :: nat, r) else (10, u)
                        | _ \<Rightarrow> (10, u));
          ds = takeWhile (isRadixDigit radix) v
      in if ds = [] then NaN else Num (sign * int (digitsValue radix ds)))"

definition startsWith :: "string \<Rightarrow> string \<Rightarrow> bool" where
  "startsWith s p = (take (length p) s = p)"

text \<open>\<open>String.prototype.replace\<close> with a string pattern: the first occurrence is replaced.\<close>

fun replace :: "string \<Rightarrow> string \<Rightarrow> string \<Rightarrow> string" where
  "replace [] p r = (if p = [] then r else [])"
| "replace (c # cs) p r =
     (if startsWith (c # cs) p then r @ drop (length p) (c # cs) else c # replace cs p r)"

section \<open>Zendesk internal ids (connectors)\<close>


definition getHelpCenterInternalId :: "int \<Rightarrow> string" where
  "getHelpCenterInternalId connectorId = ''zendesk-help-center-'' @ numberToString connectorId"

definition getCategoryInternalId :: "int \<Rightarrow> int \<Rightarrow> string" where
  "getCategoryInternalId connectorId categoryId =
     ''zendesk-category-'' @ numberToString connectorId @ ''-'' @ numberToString categoryId"


definition getTicketsInternalId :: "int \<Rightarrow> string" where
  "getTicketsInternalId connectorId = ''zendesk-tickets-'' @ numberToString connectorId"


definition getConversationInternalId :: "int \<Rightarrow> int \<Rightarrow> string" where
  "getConversationInternalId connectorId conversationId =
     ''zendesk-category-'' @ numberToString connectorId @ ''-'' @ numberToString conversationId"

text \<open>The helper \<open>_getIdFromInternal\<close> of the source.\<close>

definition getIdFromInternal :: "string \<Rightarrow> string \<Rightarrow> jsnumber option" where
  "getIdFromInternal internalId prefix =
     (if startsWith internalId prefix then Some (parseInt (replace internalId prefix []))
      else None)"


definition isInternalIdOnWholeHelpCenter :: "int \<Rightarrow> string \<Rightarrow> bool" where
  "isInternalIdOnWholeHelpCenter connectorId internalId =
     (internalId = ''zendesk-help-center-'' @ numberToString connectorId)"

definition getCategoryIdFromInternalId :: "int \<Rightarrow> string \<Rightarrow> jsnumber option" where
  "getCategoryIdFromInternalId connectorId internalId =
     getIdFromInternal internalId (''zendesk-category-'' @ numberToString connectorId @ ''-'')"


definition isInternalIdOnAllTickets :: "int \<Rightarrow> string \<Rightarrow> bool" where
  "isInternalIdOnAllTickets connectorId internalId =
     (internalId = ''zendesk-tickets-'' @ numberToString connectorId)"


subsection \<open>Decimal rendering read back by parseInt\<close>



















lemmas zendesk_eval =
  numberToString_def exponentialNotation_def natToDigits.simps digitChar_def
  getIdFromInternal_def startsWith_def parseInt_def isWhiteSpace_def isRadixDigit_def
  radixDigitValue_def digitsValue_def

subsection \<open>Round trips\<close>




text \<open>
  Claim C9 evaluated on the code: \<open>getConversationInternalId\<close> builds its string with the
  category prefix \<open>zendesk-category-\<close>, so the internal id of conversation 5 of connector 1 is
  the internal id of category 5 and is parsed as category 5 instead of \<open>null\<close>.
\<close>

theorem conversation_internal_id_parsed_as_category:
  "getConversationInternalId 1 5 = getCategoryInternalId 1 5
   \<and> getCategoryIdFromInternalId 1 (getConversationInternalId 1 5) = Some (Num 5)"
  by (simp add: getCategoryIdFromInternalId_def getConversationInternalId_def
      getCategoryInternalId_def zendesk_eval)

section \<open>The file uploader service (extension)\<close>

text \<open>
  The hook \<open>useFileUploaderService\<close> keeps the list \<open>fileBlobs\<close> and the flag
  \<open>isProcessingFiles\<close>. Its effects on the outside are logged in the state: the
  notifications sent, the calls of \<open>dustAPI.uploadFile\<close> and the \<open>DELETE\<close> requests.
  A browser \<open>File\<close> is its name, its content type and its size.
\<close>

record File =
  name_File :: string
  type_File :: string
  size_File :: nat

record FileBlob =
  contentType :: string
  file_blob :: File
  filename :: string
  id_blob :: string
  fileId :: "string option"
  isUploading :: bool
  preview :: "string option"
  size_blob :: nat
  publicUrl :: "string option"

datatype FileBlobUploadErrorCode = failed_to_upload_file | file_type_not_supported

record FileBlobUploadError =
  code :: FileBlobUploadErrorCode
  file_error :: File
  message :: string

datatype ('a, 'e) Result = Ok 'a | Err 'e

record Notification =
  type_notification :: string
  title :: string
  description :: string

text \<open>What \<open>dustAPI.uploadFile\<close> answers on success.\<close>

record FileUploaded =
  id_uploaded :: string
  downloadUrl :: string
  publicUrl_uploaded :: "string option"

record UploaderState =
  fileBlobs :: "FileBlob list"
  isProcessingFiles :: bool
  notifications :: "Notification list"
  uploadCalls :: "FileBlob list"
  deleteCalls :: "string list"

definition initialUploaderState :: UploaderState where
  "initialUploaderState =
     \<lparr>fileBlobs = [], isProcessingFiles = False, notifications = [], uploadCalls = [],
      deleteCalls = []\<rparr>"

datatype MaxFileSizeKey = PlainText | Image

fun MAX_FILE_SIZES :: "MaxFileSizeKey \<Rightarrow> nat" where
  "MAX_FILE_SIZES PlainText = 30 * 1024 * 1024"
| "MAX_FILE_SIZES Image = 5 * 1024 * 1024"

definition COMBINED_MAX_TEXT_FILES_SIZE :: nat where
  "COMBINED_MAX_TEXT_FILES_SIZE = MAX_FILE_SIZES PlainText * 2"

definition COMBINED_MAX_IMAGE_FILES_SIZE :: nat where
  "COMBINED_MAX_IMAGE_FILES_SIZE = MAX_FILE_SIZES Image * 5"

definition sendNotification :: "Notification \<Rightarrow> UploaderState \<Rightarrow> UploaderState" where
  "sendNotification n s = s\<lparr>notifications := notifications s @ [n]\<rparr>"

definition createFileBlob :: "File \<Rightarrow> string \<Rightarrow> FileBlob" where
  "createFileBlob f ct =
     \<lparr>contentType = ct, file_blob = f, filename = name_File f, id_blob = name_File f,
      fileId = None, isUploading = True, preview = None, size_blob = size_File f,
      publicUrl = None\<rparr>"

subsection \<open>The combined size check\<close>

record SizeTotals =
  totalTextualSize :: nat
  totalImageSize :: nat

text \<open>
  One step of the \<open>reduce\<close> over \<open>[...fileBlobs, ...files]\<close>: an element is a held blob
  (\<open>Inl\<close>) or a new \<open>File\<close> (\<open>Inr\<close>), and \<open>content instanceof File\<close> selects which field
  holds its content type. The predicate \<open>isSupportedImageContentType\<close> of the client library
  is a parameter.
\<close>

definition addSize :: "(string \<Rightarrow> bool) \<Rightarrow> SizeTotals \<Rightarrow> FileBlob + File \<Rightarrow> SizeTotals" where
  "addSize isSupportedImageContentType acc content =
     (let sz = (case content of Inl b \<Rightarrow> size_blob b | Inr f \<Rightarrow> size_File f)
      in if isSupportedImageContentType
              (case content of Inr f \<Rightarrow> type_File f | Inl b \<Rightarrow> contentType b)
         then acc\<lparr>totalImageSize := totalImageSize acc + sz\<rparr>
         else acc\<lparr>totalTextualSize := totalTextualSize acc + sz\<rparr>)"

definition sizeTotals :: "(string \<Rightarrow> bool) \<Rightarrow> FileBlob list \<Rightarrow> File list \<Rightarrow> SizeTotals" where
  "sizeTotals isSupportedImageContentType blobs files =
     foldl (addSize isSupportedImageContentType)
       \<lparr>totalTextualSize = 0, totalImageSize = 0\<rparr> (map Inl blobs @ map Inr files)"

subsection \<open>Selecting, uploading and merging\<close>

text \<open>
  \<open>processSelectedFiles\<close> reads the \<open>fileBlobs\<close> of the current render; it returns the
  results and the notifications it sent, in order.
\<close>

definition selectFile ::
  "(string \<Rightarrow> bool) \<Rightarrow> FileBlob list
     \<Rightarrow> (FileBlob, FileBlobUploadError) Result list \<times> Notification list \<Rightarrow> File
     \<Rightarrow> (FileBlob, FileBlobUploadError) Result list \<times> Notification list" where
  "selectFile isSupportedFileContentType held acc f =
     (if list_ex (\<lambda>b. id_blob b = name_File f) held
      then (fst acc,
            snd acc @ [\<lparr>type_notification = ''error'', title = ''File already exists.'',
                        description = ''File \"'' @ name_File f @ ''\" is already uploaded.''\<rparr>])
      else if \<not> isSupportedFileContentType (type_File f)
      then (fst acc @ [Err \<lparr>code = file_type_not_supported, file_error = f,
                            message = ''File \"'' @ name_File f @ ''\" is not supported.''\<rparr>],
            snd acc)
      else (fst acc @ [Ok (createFileBlob f (type_File f))], snd acc))"

definition processSelectedFiles ::
  "(string \<Rightarrow> bool) \<Rightarrow> FileBlob list \<Rightarrow> File list
     \<Rightarrow> (FileBlob, FileBlobUploadError) Result list \<times> Notification list" where
  "processSelectedFiles isSupportedFileContentType held selectedFiles =
     foldl (selectFile isSupportedFileContentType held) ([], []) selectedFiles"

text \<open>
  \<open>uploadFiles\<close>: one call of \<open>dustAPI.uploadFile\<close> per blob. The answer of the server is a
  parameter, given the position of the blob in the batch and the blob: an error message or
  the uploaded file.
\<close>

definition uploadOne ::
  "(string \<Rightarrow> bool) \<Rightarrow> (nat \<Rightarrow> FileBlob \<Rightarrow> string + FileUploaded) \<Rightarrow> nat \<times> FileBlob
     \<Rightarrow> (FileBlob, FileBlobUploadError) Result" where
  "uploadOne isSupportedImageContentType uploadFile ib =
     (case uploadFile (fst ib) (snd ib) of
        Inl msg \<Rightarrow> Err \<lparr>code = failed_to_upload_file, file_error = file_blob (snd ib), message = msg\<rparr>
      | Inr fileUploaded \<Rightarrow>
          Ok ((snd ib)\<lparr>fileId := Some (id_uploaded fileUploaded), isUploading := False,
                preview := (if isSupportedImageContentType (contentType (snd ib))
                            then Some (downloadUrl fileUploaded @ ''?action=view'') else None),
                publicUrl := publicUrl_uploaded fileUploaded\<rparr>))"

definition uploadFiles ::
  "(string \<Rightarrow> bool) \<Rightarrow> (nat \<Rightarrow> FileBlob \<Rightarrow> string + FileUploaded) \<Rightarrow> FileBlob list
     \<Rightarrow> UploaderState \<Rightarrow> (FileBlob, FileBlobUploadError) Result list \<times> UploaderState" where
  "uploadFiles isSupportedImageContentType uploadFile newFileBlobs s =
     (map (uploadOne isSupportedImageContentType uploadFile) (enumerate 0 newFileBlobs),
      s\<lparr>uploadCalls := uploadCalls s @ newFileBlobs\<rparr>)"

text \<open>
  A JavaScript \<open>Map\<close> as an association list in insertion order: \<open>set\<close> replaces the value
  of a key in place and appends a new key; \<open>new Map(entries)\<close> sets the entries one by one.
\<close>

fun mapSet :: "('k \<times> 'v) list \<Rightarrow> 'k \<Rightarrow> 'v \<Rightarrow> ('k \<times> 'v) list" where
  "mapSet [] k v = [(k, v)]"
| "mapSet ((k', v') # m) k v = (if k' = k then (k, v) # m else (k', v') # mapSet m k v)"

definition newMap :: "('k \<times> 'v) list \<Rightarrow> ('k \<times> 'v) list" where
  "newMap entries = foldl (\<lambda>m kv. mapSet m (fst kv) (snd kv)) [] entries"

definition mergeBlobs :: "FileBlob list \<Rightarrow> FileBlob list \<Rightarrow> FileBlob list" where
  "mergeBlobs successfulBlobs prevFiles =
     map snd (foldl (\<lambda>m blob. mapSet m (id_blob blob) blob)
                (newMap (map (\<lambda>blob. (id_blob blob, blob)) prevFiles)) successfulBlobs)"

definition dropErrored :: "FileBlobUploadError list \<Rightarrow> FileBlob list \<Rightarrow> FileBlob list" where
  "dropErrored erroredBlobs prevFiles =
     filter (\<lambda>f. \<not> list_ex (\<lambda>e. name_File (file_error e) = id_blob f) erroredBlobs) prevFiles"

fun successes :: "('a, 'e) Result list \<Rightarrow> 'a list" where
  "successes [] = []"
| "successes (Ok v # rs) = v # successes rs"
| "successes (Err e # rs) = successes rs"

fun failures :: "('a, 'e) Result list \<Rightarrow> 'e list" where
  "failures [] = []"
| "failures (Ok v # rs) = failures rs"
| "failures (Err e # rs) = e # failures rs"

text \<open>\<open>updateBlobs\<close> is an optional argument that defaults to \<open>true\<close>.\<close>

definition processResults ::
  "(FileBlob, FileBlobUploadError) Result list \<Rightarrow> bool option \<Rightarrow> UploaderState
     \<Rightarrow> FileBlob list \<times> UploaderState" where
  "processResults results updateBlobs s =
     (let successfulBlobs = successes results;
          erroredBlobs = failures results;
          s1 = foldl (\<lambda>st e. sendNotification
                       \<lparr>type_notification = ''error'', title = ''Failed to upload file.'',
                        description = message e\<rparr> st) s erroredBlobs;
          s2 = (if (case updateBlobs of None \<Rightarrow> True | Some u \<Rightarrow> u) \<and> erroredBlobs \<noteq> []
                then s1\<lparr>fileBlobs := dropErrored erroredBlobs (fileBlobs s1)\<rparr> else s1);
          s3 = (if (case updateBlobs of None \<Rightarrow> True | Some u \<Rightarrow> u) \<and> successfulBlobs \<noteq> []
                then s2\<lparr>fileBlobs := mergeBlobs successfulBlobs (fileBlobs s2)\<rparr> else s2)
      in (successfulBlobs, s3))"

text \<open>
  \<open>handleFilesUpload\<close> returns \<open>undefined\<close> (\<open>None\<close>) when the combined sizes exceed the
  limits, and the uploaded blobs otherwise.
\<close>

definition handleFilesUpload ::
  "(string \<Rightarrow> bool) \<Rightarrow> (string \<Rightarrow> bool) \<Rightarrow> (nat \<Rightarrow> FileBlob \<Rightarrow> string + FileUploaded)
     \<Rightarrow> File list \<Rightarrow> bool option \<Rightarrow> UploaderState \<Rightarrow> FileBlob list option \<times> UploaderState" where
  "handleFilesUpload isSupportedImageContentType isSupportedFileContentType uploadFile files
     updateBlobs s =
     (let s0 = s\<lparr>isProcessingFiles := True\<rparr>;
          totals = sizeTotals isSupportedImageContentType (fileBlobs s) files
      in if totalTextualSize totals > COMBINED_MAX_TEXT_FILES_SIZE
            \<or> totalImageSize totals > COMBINED_MAX_IMAGE_FILES_SIZE
         then (None,
               sendNotification
                 \<lparr>type_notification = ''error'', title = ''Files too large.'',
                  description =
                    ''Combined file sizes exceed the limits. Please upload smaller files.''\<rparr>
                 s0)
         else
           (let (previewResults, ns) =
                  processSelectedFiles isSupportedFileContentType (fileBlobs s) files;
                s1 = s0\<lparr>notifications := notifications s0 @ ns\<rparr>;
                (newFileBlobs, s2) = processResults previewResults updateBlobs s1;
                (uploadResults, s3) =
                  uploadFiles isSupportedImageContentType uploadFile newFileBlobs s2;
                (finalFileBlobs, s4) = processResults uploadResults updateBlobs s3
            in (Some finalFileBlobs, s4\<lparr>isProcessingFiles := False\<rparr>)))"

definition removeFile :: "string \<Rightarrow> UploaderState \<Rightarrow> UploaderState" where
  "removeFile fid s =
     (case find (\<lambda>f. id_blob f = fid) (fileBlobs s) of
        None \<Rightarrow> s
      | Some fileBlob \<Rightarrow>
          (let s1 = s\<lparr>fileBlobs := filter (\<lambda>f. fileId f \<noteq> fileId fileBlob) (fileBlobs s),
                      deleteCalls := deleteCalls s @ [case fileId fileBlob of
                                                        None \<Rightarrow> ''null'' | Some i \<Rightarrow> i]\<rparr>
           in if list_all (\<lambda>f. isUploading f = False) (fileBlobs s) \<and> isProcessingFiles s
              then s1\<lparr>isProcessingFiles := False\<rparr> else s1))"

definition resetUpload :: "UploaderState \<Rightarrow> UploaderState" where
  "resetUpload s = s\<lparr>fileBlobs := []\<rparr>"

text \<open>A sequence of operations of the hook, each on the state the previous one left.\<close>

datatype UploaderOp =
    HandleFilesUpload "File list" "bool option" "nat \<Rightarrow> FileBlob \<Rightarrow> string + FileUploaded"
  | RemoveFile string
  | ResetUpload

fun applyOp ::
  "(string \<Rightarrow> bool) \<Rightarrow> (string \<Rightarrow> bool) \<Rightarrow> UploaderState \<Rightarrow> UploaderOp \<Rightarrow> UploaderState" where
  "applyOp isImage isFile s (HandleFilesUpload files updateBlobs uploadFile) =
     snd (handleFilesUpload isImage isFile uploadFile files updateBlobs s)"
| "applyOp isImage isFile s (RemoveFile fid) = removeFile fid s"
| "applyOp isImage isFile s ResetUpload = resetUpload s"

definition runOps ::
  "(string \<Rightarrow> bool) \<Rightarrow> (string \<Rightarrow> bool) \<Rightarrow> UploaderOp list \<Rightarrow> UploaderState" where
  "runOps isImage isFile ops = foldl (applyOp isImage isFile) initialUploaderState ops"

subsection \<open>The size totals\<close>

definition contentSize :: "FileBlob + File \<Rightarrow> nat" where
  "contentSize c = (case c of Inl b \<Rightarrow> size_blob b | Inr f \<Rightarrow> size_File f)"

definition contentTypeOf :: "FileBlob + File \<Rightarrow> string" where
  "contentTypeOf c = (case c of Inl b \<Rightarrow> contentType b | Inr f \<Rightarrow> type_File f)"

lemma foldl_addSize_image:
  "totalImageSize (foldl (addSize isImg) acc cs)
     = totalImageSize acc + sum_list (map contentSize (filter (\<lambda>c. isImg (contentTypeOf c)) cs))"
  by (induction cs arbitrary: acc)
    (auto simp: addSize_def contentSize_def contentTypeOf_def Let_def split: sum.splits)

lemma foldl_addSize_textual:
  "totalTextualSize (foldl (addSize isImg) acc cs)
     = totalTextualSize acc
       + sum_list (map contentSize (filter (\<lambda>c. \<not> isImg (contentTypeOf c)) cs))"
  by (induction cs arbitrary: acc)
    (auto simp: addSize_def contentSize_def contentTypeOf_def Let_def split: sum.splits)

lemma sum_sizes_Inl:
  "sum_list (map contentSize (filter (\<lambda>c. P (contentTypeOf c)) (map Inl blobs)))
     = sum_list (map size_blob (filter (\<lambda>b. P (contentType b)) blobs))"
  by (induction blobs) (auto simp: contentSize_def contentTypeOf_def)

lemma sum_sizes_Inr:
  "sum_list (map contentSize (filter (\<lambda>c. P (contentTypeOf c)) (map Inr files)))
     = sum_list (map size_File (filter (\<lambda>f. P (type_File f)) files))"
  by (induction files) (auto simp: contentSize_def contentTypeOf_def)

lemma totalImageSize_sizeTotals:
  "totalImageSize (sizeTotals isImg blobs files)
     = sum_list (map size_blob (filter (\<lambda>b. isImg (contentType b)) blobs))
       + sum_list (map size_File (filter (\<lambda>f. isImg (type_File f)) files))"
  by (simp add: sizeTotals_def foldl_addSize_image sum_sizes_Inl sum_sizes_Inr)

lemma totalTextualSize_sizeTotals:
  "totalTextualSize (sizeTotals isImg blobs files)
     = sum_list (map size_blob (filter (\<lambda>b. \<not> isImg (contentType b)) blobs))
       + sum_list (map size_File (filter (\<lambda>f. \<not> isImg (type_File f)) files))"
  using foldl_addSize_textual [of isImg _ "map Inl blobs @ map Inr files"]
    sum_sizes_Inl [of "\<lambda>t. \<not> isImg t" blobs] sum_sizes_Inr [of "\<lambda>t. \<not> isImg t" files]
  by (simp add: sizeTotals_def)

text \<open>
  Claim C4: when the sizes of the held blobs and of the new files with a supported image
  content type add up to more than 25 MB (5 times the 5 MB image limit), or those of all the
  others to more than 60 MB (twice the 30 MB plain-text limit), \<open>handleFilesUpload\<close> returns
  \<open>undefined\<close>, calls \<open>dustAPI.uploadFile\<close> for no file, sends one error notification, and
  leaves \<open>fileBlobs\<close> as it was.
\<close>

theorem handleFilesUpload_sizes_exceeded:
  assumes "26214400 <
             sum_list (map size_blob (filter (\<lambda>b. isImg (contentType b)) (fileBlobs s)))
             + sum_list (map size_File (filter (\<lambda>f. isImg (type_File f)) files))
           \<or> 62914560 <
             sum_list (map size_blob (filter (\<lambda>b. \<not> isImg (contentType b)) (fileBlobs s)))
             + sum_list (map size_File (filter (\<lambda>f. \<not> isImg (type_File f)) files))"
  shows "fst (handleFilesUpload isImg isFile uploadFile files updateBlobs s) = None
       \<and> uploadCalls (snd (handleFilesUpload isImg isFile uploadFile files updateBlobs s))
           = uploadCalls s
       \<and> notifications (snd (handleFilesUpload isImg isFile uploadFile files updateBlobs s))
           = notifications s @
               [\<lparr>type_notification = ''error'', title = ''Files too large.'',
                 description =
                   ''Combined file sizes exceed the limits. Please upload smaller files.''\<rparr>]
       \<and> fileBlobs (snd (handleFilesUpload isImg isFile uploadFile files updateBlobs s))
           = fileBlobs s"
proof -
  have "totalTextualSize (sizeTotals isImg (fileBlobs s) files) > COMBINED_MAX_TEXT_FILES_SIZE
      \<or> totalImageSize (sizeTotals isImg (fileBlobs s) files) > COMBINED_MAX_IMAGE_FILES_SIZE"
    using assms
    by (auto simp: totalImageSize_sizeTotals totalTextualSize_sizeTotals
        COMBINED_MAX_TEXT_FILES_SIZE_def COMBINED_MAX_IMAGE_FILES_SIZE_def)
  then show ?thesis
    by (simp add: handleFilesUpload_def Let_def sendNotification_def del: MAX_FILE_SIZES.simps)
qed

theorem handleFilesUpload_sizes_exceeded_witness:
  "26214400 <
     sum_list (map size_blob (filter (\<lambda>b. contentType b = ''image/png'')
                 (fileBlobs initialUploaderState)))
     + sum_list (map size_File (filter (\<lambda>f. type_File f = ''image/png'')
                   [\<lparr>name_File = ''a.png'', type_File = ''image/png'', size_File = 30000000\<rparr>]))
   \<and> fst (handleFilesUpload (\<lambda>t. t = ''image/png'') (\<lambda>t. True) (\<lambda>i b. Inl ''no answer'')
           [\<lparr>name_File = ''a.png'', type_File = ''image/png'', size_File = 30000000\<rparr>] None
           initialUploaderState) = None
   \<and> fileBlobs (snd (handleFilesUpload (\<lambda>t. t = ''image/png'') (\<lambda>t. True)
           (\<lambda>i b. Inl ''no answer'')
           [\<lparr>name_File = ''a.png'', type_File = ''image/png'', size_File = 30000000\<rparr>] None
           initialUploaderState)) = []
   \<and> uploadCalls (snd (handleFilesUpload (\<lambda>t. t = ''image/png'') (\<lambda>t. True)
           (\<lambda>i b. Inl ''no answer'')
           [\<lparr>name_File = ''a.png'', type_File = ''image/png'', size_File = 30000000\<rparr>] None
           initialUploaderState)) = []"
  using handleFilesUpload_sizes_exceeded
    [of "\<lambda>t. t = ''image/png''" initialUploaderState
      "[\<lparr>name_File = ''a.png'', type_File = ''image/png'', size_File = 30000000\<rparr>]"
      "\<lambda>t. True" "\<lambda>i b. Inl ''no answer''" None]
  by (simp add: initialUploaderState_def)

subsection \<open>Distinct blob ids\<close>

text \<open>The file a result entry is about, and the notification sent for a skipped file.\<close>

definition resultFile :: "(FileBlob, FileBlobUploadError) Result \<Rightarrow> File" where
  "resultFile r = (case r of Ok b \<Rightarrow> file_blob b | Err e \<Rightarrow> file_error e)"

definition alreadyExists :: "File \<Rightarrow> Notification" where
  "alreadyExists f =
     \<lparr>type_notification = ''error'', title = ''File already exists.'',
      description = ''File \"'' @ name_File f @ ''\" is already uploaded.''\<rparr>"

definition selectedResult ::
  "(string \<Rightarrow> bool) \<Rightarrow> File \<Rightarrow> (FileBlob, FileBlobUploadError) Result" where
  "selectedResult isFile f =
     (if isFile (type_File f) then Ok (createFileBlob f (type_File f))
      else Err \<lparr>code = file_type_not_supported, file_error = f,
                 message = ''File \"'' @ name_File f @ ''\" is not supported.''\<rparr>)"

lemma foldl_selectFile:
  "foldl (selectFile isFile held) acc fs =
     (fst acc @ map (selectedResult isFile)
                  (filter (\<lambda>f. \<not> list_ex (\<lambda>b. id_blob b = name_File f) held) fs),
      snd acc @ map alreadyExists
                  (filter (\<lambda>f. list_ex (\<lambda>b. id_blob b = name_File f) held) fs))"
  by (induction fs arbitrary: acc)
    (simp_all add: selectFile_def selectedResult_def alreadyExists_def)

lemma processSelectedFiles_eq:
  "processSelectedFiles isFile held fs =
     (map (selectedResult isFile)
        (filter (\<lambda>f. \<not> list_ex (\<lambda>b. id_blob b = name_File f) held) fs),
      map alreadyExists (filter (\<lambda>f. list_ex (\<lambda>b. id_blob b = name_File f) held) fs))"
  by (simp add: processSelectedFiles_def foldl_selectFile)

lemma resultFile_selectedResult: "resultFile (selectedResult isFile f) = f"
  by (simp add: resultFile_def selectedResult_def createFileBlob_def)

lemma processSelectedFiles_skips:
  assumes "f \<in> set fs" and "name_File f \<in> id_blob ` set held"
  shows "alreadyExists f \<in> set (snd (processSelectedFiles isFile held fs))"
    and "\<forall>r \<in> set (fst (processSelectedFiles isFile held fs)).
           name_File (resultFile r) \<noteq> name_File f"
proof -
  from assms(2) have ex: "list_ex (\<lambda>b. id_blob b = name_File f) held"
    by (auto simp: list_ex_iff)
  with assms(1) show "alreadyExists f \<in> set (snd (processSelectedFiles isFile held fs))"
    by (simp add: processSelectedFiles_eq)
  show "\<forall>r \<in> set (fst (processSelectedFiles isFile held fs)).
           name_File (resultFile r) \<noteq> name_File f"
    using ex by (auto simp: processSelectedFiles_eq resultFile_selectedResult)
qed

text \<open>A map whose keys are distinct and are the ids of their values.\<close>

definition keyedById :: "(string \<times> FileBlob) list \<Rightarrow> bool" where
  "keyedById m = (distinct (map fst m) \<and> list_all (\<lambda>kv. id_blob (snd kv) = fst kv) m)"

lemma set_fst_mapSet: "fst ` set (mapSet m k v) = insert k (fst ` set m)"
  by (induction m k v rule: mapSet.induct) auto

lemma distinct_mapSet: "distinct (map fst m) \<Longrightarrow> distinct (map fst (mapSet m k v))"
proof (induction m k v rule: mapSet.induct)
  case (1 k v)
  then show ?case by simp
next
  case (2 k' v' m k v)
  then show ?case
    using set_fst_mapSet [of m k v] by auto
qed

lemma list_all_mapSet: "list_all P m \<Longrightarrow> P (k, v) \<Longrightarrow> list_all P (mapSet m k v)"
  by (induction m k v rule: mapSet.induct) auto

lemma keyedById_mapSet: "keyedById m \<Longrightarrow> keyedById (mapSet m (id_blob b) b)"
  by (simp add: keyedById_def distinct_mapSet list_all_mapSet)

lemma keyedById_foldl:
  "keyedById m \<Longrightarrow> keyedById (foldl (\<lambda>m blob. mapSet m (id_blob blob) blob) m bs)"
  by (induction bs arbitrary: m) (simp_all add: keyedById_mapSet)

lemma newMap_blobs:
  "newMap (map (\<lambda>blob. (id_blob blob, blob)) bs)
     = foldl (\<lambda>m blob. mapSet m (id_blob blob) blob) [] bs"
  by (simp add: newMap_def foldl_map)

lemma keyedById_ids: "keyedById m \<Longrightarrow> distinct (map id_blob (map snd m))"
proof -
  assume k: "keyedById m"
  then have "\<forall>kv \<in> set m. id_blob (snd kv) = fst kv"
    by (simp add: keyedById_def list_all_iff)
  then have "map (\<lambda>kv. id_blob (snd kv)) m = map fst m"
    by (simp cong: map_cong)
  moreover have "map id_blob (map snd m) = map (\<lambda>kv. id_blob (snd kv)) m"
    by (simp add: comp_def)
  ultimately have "map id_blob (map snd m) = map fst m" by (simp only:)
  with k show ?thesis by (simp only: keyedById_def)
qed

lemma distinct_mergeBlobs: "distinct (map id_blob (mergeBlobs successfulBlobs prevFiles))"
proof -
  have "keyedById []" by (simp add: keyedById_def)
  then have "keyedById (newMap (map (\<lambda>blob. (id_blob blob, blob)) prevFiles))"
    unfolding newMap_blobs by (rule keyedById_foldl)
  then have "keyedById (foldl (\<lambda>m blob. mapSet m (id_blob blob) blob)
                (newMap (map (\<lambda>blob. (id_blob blob, blob)) prevFiles)) successfulBlobs)"
    by (rule keyedById_foldl)
  then show ?thesis
    unfolding mergeBlobs_def by (rule keyedById_ids)
qed

lemma distinct_dropErrored:
  "distinct (map id_blob prevFiles) \<Longrightarrow> distinct (map id_blob (dropErrored es prevFiles))"
  by (simp add: dropErrored_def distinct_map_filter)

lemma fileBlobs_foldl_sendNotification:
  "fileBlobs (foldl (\<lambda>st e. sendNotification (n e) st) s es) = fileBlobs s"
  by (induction es arbitrary: s) (simp_all add: sendNotification_def)

lemma distinct_processResults:
  assumes "distinct (map id_blob (fileBlobs s))"
  shows "distinct (map id_blob (fileBlobs (snd (processResults results updateBlobs s))))"
  using assms
  by (simp add: processResults_def Let_def fileBlobs_foldl_sendNotification
      distinct_mergeBlobs distinct_dropErrored)

lemma distinct_handleFilesUpload:
  assumes "distinct (map id_blob (fileBlobs s))"
  shows "distinct (map id_blob
           (fileBlobs (snd (handleFilesUpload isImage isFile uploadFile files updateBlobs s))))"
proof (cases "totalTextualSize (sizeTotals isImage (fileBlobs s) files)
                 > COMBINED_MAX_TEXT_FILES_SIZE
              \<or> totalImageSize (sizeTotals isImage (fileBlobs s) files)
                 > COMBINED_MAX_IMAGE_FILES_SIZE")
  case True
  then show ?thesis
    using assms by (simp add: handleFilesUpload_def Let_def sendNotification_def)
next
  case False
  obtain previewResults ns where p:
    "processSelectedFiles isFile (fileBlobs s) files = (previewResults, ns)"
    by (cases "processSelectedFiles isFile (fileBlobs s) files")
  define s1 where "s1 = s\<lparr>isProcessingFiles := True, notifications := notifications s @ ns\<rparr>"
  obtain newFileBlobs s2 where r1: "processResults previewResults updateBlobs s1 = (newFileBlobs, s2)"
    by (cases "processResults previewResults updateBlobs s1")
  obtain uploadResults s3 where u: "uploadFiles isImage uploadFile newFileBlobs s2 = (uploadResults, s3)"
    by (cases "uploadFiles isImage uploadFile newFileBlobs s2")
  obtain finalFileBlobs s4 where r2: "processResults uploadResults updateBlobs s3 = (finalFileBlobs, s4)"
    by (cases "processResults uploadResults updateBlobs s3")
  have "distinct (map id_blob (fileBlobs s1))"
    using assms by (simp add: s1_def)
  then have "distinct (map id_blob (fileBlobs s2))"
    using distinct_processResults [of s1 previewResults updateBlobs] by (simp add: r1)
  moreover have "fileBlobs s3 = fileBlobs s2"
    using u by (auto simp: uploadFiles_def)
  ultimately have "distinct (map id_blob (fileBlobs s4))"
    using distinct_processResults [of s3 uploadResults updateBlobs] by (simp add: r2)
  moreover have "handleFilesUpload isImage isFile uploadFile files updateBlobs s
                   = (Some finalFileBlobs, s4\<lparr>isProcessingFiles := False\<rparr>)"
    using False p r1 u r2 by (simp add: handleFilesUpload_def Let_def s1_def)
  ultimately show ?thesis by simp
qed

lemma distinct_removeFile:
  "distinct (map id_blob (fileBlobs s)) \<Longrightarrow> distinct (map id_blob (fileBlobs (removeFile fid s)))"
  by (simp add: removeFile_def Let_def distinct_map_filter split: option.splits)

lemma distinct_applyOp:
  "distinct (map id_blob (fileBlobs s))
     \<Longrightarrow> distinct (map id_blob (fileBlobs (applyOp isImage isFile s op)))"
  by (cases op) (simp_all add: distinct_handleFilesUpload distinct_removeFile resetUpload_def)

lemma distinct_foldl_applyOp:
  "distinct (map id_blob (fileBlobs s))
     \<Longrightarrow> distinct (map id_blob (fileBlobs (foldl (applyOp isImage isFile) s ops)))"
  by (induction ops arbitrary: s) (simp_all add: distinct_applyOp)

text \<open>
  Claim C10: \<open>processSelectedFiles\<close> skips every selected file whose name is the id of a
  held blob (it sends the notification that the file already exists, and no result entry,
  \<open>Ok\<close> or \<open>Err\<close>, is about a file of that name); and after every sequence of
  \<open>handleFilesUpload\<close>, \<open>removeFile\<close> and \<open>resetUpload\<close> operations from the initial state
  the ids of the entries of \<open>fileBlobs\<close> are pairwise distinct.
\<close>

theorem fileBlobs_ids_distinct:
  "(\<forall>f \<in> set selectedFiles. name_File f \<in> id_blob ` set held \<longrightarrow>
       alreadyExists f \<in> set (snd (processSelectedFiles isFile held selectedFiles))
     \<and> (\<forall>r \<in> set (fst (processSelectedFiles isFile held selectedFiles)).
           name_File (resultFile r) \<noteq> name_File f))
   \<and> distinct (map id_blob (fileBlobs (runOps isImage isFile ops)))"
proof -
  have "distinct (map id_blob (fileBlobs initialUploaderState))"
    by (simp add: initialUploaderState_def)
  then have "distinct (map id_blob (fileBlobs (runOps isImage isFile ops)))"
    unfolding runOps_def by (rule distinct_foldl_applyOp)
  then show ?thesis
    using processSelectedFiles_skips [of _ selectedFiles held isFile] by blast
qed

lemmas uploader_eval =
  runOps_def initialUploaderState_def handleFilesUpload_def sizeTotals_def addSize_def
  COMBINED_MAX_TEXT_FILES_SIZE_def COMBINED_MAX_IMAGE_FILES_SIZE_def processSelectedFiles_def
  selectFile_def createFileBlob_def processResults_def uploadFiles_def uploadOne_def
  mergeBlobs_def newMap_def dropErrored_def sendNotification_def removeFile_def
  resetUpload_def alreadyExists_def resultFile_def Let_def enumerate_eq_zip

theorem fileBlobs_ids_distinct_witness:
  "name_File \<lparr>name_File = ''a.txt'', type_File = ''text/plain'', size_File = 3\<rparr>
     \<in> id_blob ` set [createFileBlob
                         \<lparr>name_File = ''a.txt'', type_File = ''text/plain'', size_File = 3\<rparr>
                         ''text/plain'']
   \<and> processSelectedFiles (\<lambda>t. True)
         [createFileBlob \<lparr>name_File = ''a.txt'', type_File = ''text/plain'', size_File = 3\<rparr>
            ''text/plain'']
         [\<lparr>name_File = ''a.txt'', type_File = ''text/plain'', size_File = 3\<rparr>]
       = ([], [alreadyExists \<lparr>name_File = ''a.txt'', type_File = ''text/plain'', size_File = 3\<rparr>])
   \<and> map id_blob (fileBlobs (runOps (\<lambda>t. False) (\<lambda>t. True)
         [HandleFilesUpload
            [\<lparr>name_File = ''a.txt'', type_File = ''text/plain'', size_File = 3\<rparr>,
             \<lparr>name_File = ''b.txt'', type_File = ''text/plain'', size_File = 4\<rparr>,
             \<lparr>name_File = ''a.txt'', type_File = ''text/plain'', size_File = 5\<rparr>]
            None
            (\<lambda>i b. Inr \<lparr>id_uploaded = ''fil'', downloadUrl = ''u'', publicUrl_uploaded = None\<rparr>)]))
       = [''a.txt'', ''b.txt'']
   \<and> distinct (map id_blob (fileBlobs (runOps (\<lambda>t. False) (\<lambda>t. True)
         [HandleFilesUpload
            [\<lparr>name_File = ''a.txt'', type_File = ''text/plain'', size_File = 3\<rparr>,
             \<lparr>name_File = ''b.txt'', type_File = ''text/plain'', size_File = 4\<rparr>,
             \<lparr>name_File = ''a.txt'', type_File = ''text/plain'', size_File = 5\<rparr>]
            None
            (\<lambda>i b. Inr \<lparr>id_uploaded = ''fil'', downloadUrl = ''u'', publicUrl_uploaded = None\<rparr>)])))"
  using fileBlobs_ids_distinct
    [of "[\<lparr>name_File = ''a.txt'', type_File = ''text/plain'', size_File = 3\<rparr>]"
      "[createFileBlob \<lparr>name_File = ''a.txt'', type_File = ''text/plain'', size_File = 3\<rparr>
          ''text/plain'']"
      "\<lambda>t. True" "\<lambda>t. False"
      "[HandleFilesUpload
            [\<lparr>name_File = ''a.txt'', type_File = ''text/plain'', size_File = 3\<rparr>,
             \<lparr>name_File = ''b.txt'', type_File = ''text/plain'', size_File = 4\<rparr>,
             \<lparr>name_File = ''a.txt'', type_File = ''text/plain'', size_File = 5\<rparr>]
            None
            (\<lambda>i b. Inr \<lparr>id_uploaded = ''fil'', downloadUrl = ''u'', publicUrl_uploaded = None\<rparr>)]"]
  by (simp add: uploader_eval)

section \<open>Plans, subscriptions and the authenticator (front)\<close>

text \<open>
  \<open>PlanAttributes\<close> are the columns of a plan that \<open>renderPlanFromModel\<close> reads; a row of the
  \<open>Plan\<close> table is a \<open>PlanAttributes\<close> with its primary key. Dates are their
  \<open>getTime()\<close> value. A nullable value is an \<open>option\<close>.
\<close>

record PlanAttributes =
  code_plan :: string
  name_plan :: string
  stripeProductId :: "string option"
  billingType :: string
  isSlackbotAllowed :: bool
  maxMessages :: int
  isManagedConfluenceAllowed :: bool
  isManagedSlackAllowed :: bool
  isManagedNotionAllowed :: bool
  isManagedGoogleDriveAllowed :: bool
  isManagedGithubAllowed :: bool
  isManagedIntercomAllowed :: bool
  isManagedWebCrawlerAllowed :: bool
  maxDataSourcesCount :: int
  maxDataSourcesDocumentsCount :: int
  maxDataSourcesDocumentsSizeMb :: int
  maxUsersInWorkspace :: int
  canUseProduct :: bool
  trialPeriodDays :: int

record Plan = PlanAttributes +
  id_plan :: int

record AssistantLimits =
  isSlackBotAllowed :: bool
  maxMessages_limit :: int

record ConnectionsLimits =
  isConfluenceAllowed :: bool
  isSlackAllowed :: bool
  isNotionAllowed :: bool
  isGoogleDriveAllowed :: bool
  isGithubAllowed :: bool
  isIntercomAllowed :: bool
  isWebCrawlerAllowed :: bool

record DocumentsLimits =
  count_documents :: int
  sizeMb :: int

record DataSourcesLimits =
  count_dataSources :: int
  documents :: DocumentsLimits

record UsersLimits =
  maxUsers :: int

record PlanLimits =
  assistant :: AssistantLimits
  connections :: ConnectionsLimits
  dataSources :: DataSourcesLimits
  users :: UsersLimits
  canUseProduct_limit :: bool

record PlanType =
  code_PlanType :: string
  name_PlanType :: string
  stripeProductId_PlanType :: "string option"
  billingType_PlanType :: string
  limits :: PlanLimits
  trialPeriodDays_PlanType :: int

definition renderPlanFromModel :: "'a PlanAttributes_scheme \<Rightarrow> PlanType" where
  "renderPlanFromModel p =
     \<lparr>code_PlanType = code_plan p,
      name_PlanType = name_plan p,
      stripeProductId_PlanType = stripeProductId p,
      billingType_PlanType = billingType p,
      limits =
        \<lparr>assistant =
           \<lparr>isSlackBotAllowed = isSlackbotAllowed p, maxMessages_limit = maxMessages p\<rparr>,
         connections =
           \<lparr>isConfluenceAllowed = isManagedConfluenceAllowed p,
            isSlackAllowed = isManagedSlackAllowed p,
            isNotionAllowed = isManagedNotionAllowed p,
            isGoogleDriveAllowed = isManagedGoogleDriveAllowed p,
            isGithubAllowed = isManagedGithubAllowed p,
            isIntercomAllowed = isManagedIntercomAllowed p,
            isWebCrawlerAllowed = isManagedWebCrawlerAllowed p\<rparr>,
         dataSources =
           \<lparr>count_dataSources = maxDataSourcesCount p,
            documents =
              \<lparr>count_documents = maxDataSourcesDocumentsCount p,
               sizeMb = maxDataSourcesDocumentsSizeMb p\<rparr>\<rparr>,
         users = \<lparr>maxUsers = maxUsersInWorkspace p\<rparr>,
         canUseProduct_limit = canUseProduct p\<rparr>,
      trialPeriodDays_PlanType = trialPeriodDays p\<rparr>"

text \<open>A row of the \<open>Subscription\<close> table.\<close>

record Subscription =
  id_subscription :: int
  sId :: string
  workspaceId :: int
  planId :: int
  status :: string
  startDate :: "int option"
  endDate :: "int option"
  stripeSubscriptionId :: "string option"
  stripeCustomerId :: "string option"
  paymentFailingSince :: "int option"

record SubscriptionType =
  status_SubscriptionType :: string
  sId_SubscriptionType :: "string option"
  stripeSubscriptionId_SubscriptionType :: "string option"
  stripeCustomerId_SubscriptionType :: "string option"
  startDate_SubscriptionType :: "int option"
  endDate_SubscriptionType :: "int option"
  paymentFailingSince_SubscriptionType :: "int option"
  plan_SubscriptionType :: PlanType

record WorkspaceType =
  id_workspace :: int
  sId_workspace :: string

record UserType =
  id_user :: int
  email :: string

text \<open>
  The class \<open>Authenticator\<close> is not among the sources. An authenticator is modelled by what
  the accessors called in the sources return: \<open>workspace()\<close>, \<open>plan()\<close>, \<open>user()\<close>,
  \<open>subscription()\<close>, \<open>isUser()\<close>, \<open>isBuilder()\<close> and \<open>isAdmin()\<close>.
\<close>

record Authenticator =
  workspace :: "WorkspaceType option"
  plan :: "PlanType option"
  user :: "UserType option"
  subscription :: "SubscriptionType option"
  isUser :: bool
  isBuilder :: bool
  isAdmin :: bool

text \<open>Example values, for the instances at which the theorems below are evaluated.\<close>

definition examplePlan :: "string \<Rightarrow> int \<Rightarrow> Plan" where
  "examplePlan c i =
     \<lparr>code_plan = c, name_plan = c, stripeProductId = None, billingType = ''free'',
      isSlackbotAllowed = False, maxMessages = 50, isManagedConfluenceAllowed = False,
      isManagedSlackAllowed = False, isManagedNotionAllowed = False,
      isManagedGoogleDriveAllowed = False, isManagedGithubAllowed = False,
      isManagedIntercomAllowed = False, isManagedWebCrawlerAllowed = False,
      maxDataSourcesCount = 5, maxDataSourcesDocumentsCount = 10,
      maxDataSourcesDocumentsSizeMb = 2, maxUsersInWorkspace = 1, canUseProduct = True,
      trialPeriodDays = 0, id_plan = i\<rparr>"

definition exampleAuth :: "bool \<Rightarrow> Authenticator" where
  "exampleAuth member =
     \<lparr>workspace = Some \<lparr>id_workspace = 1, sId_workspace = ''w1''\<rparr>,
      plan = Some (renderPlanFromModel (examplePlan ''PRO'' 2)),
      user = Some \<lparr>id_user = 7, email = ''user@example.com''\<rparr>,
      subscription = None, isUser = member, isBuilder = member, isAdmin = member\<rparr>"

section \<open>Datasets (front/lib/api/datasets)\<close>

record AppType =
  internalId :: int
  dustAPIProjectId :: string

text \<open>A row of the \<open>Dataset\<close> table, and the \<open>DatasetType\<close> the functions return.\<close>

record Dataset =
  workspaceId_dataset :: int
  appId :: int
  name_dataset :: string
  description_dataset :: "string option"

record 'd DatasetType =
  name_DatasetType :: string
  description_DatasetType :: "string option"
  data :: "'d option"


definition findDataset :: "Dataset list \<Rightarrow> int \<Rightarrow> int \<Rightarrow> string \<Rightarrow> Dataset option" where
  "findDataset table wid aid nm =
     find (\<lambda>d. workspaceId_dataset d = wid \<and> appId d = aid \<and> name_dataset d = nm) table"

definition getDataset ::
  "Dataset list \<Rightarrow> Authenticator \<Rightarrow> AppType \<Rightarrow> string \<Rightarrow> 'd DatasetType option" where
  "getDataset table auth app nm =
     (case workspace auth of
        None \<Rightarrow> None
      | Some owner \<Rightarrow>
          (case findDataset table (id_workspace owner) (internalId app) nm of
             None \<Rightarrow> None
           | Some dataset \<Rightarrow>
               Some \<lparr>name_DatasetType = name_dataset dataset,
                     description_DatasetType = description_dataset dataset, data = None\<rparr>))"





section \<open>Authentication wrappers of the API routes (front)\<close>

text \<open>
  A value of \<open>req.query\<close> or of \<open>req.headers\<close> is \<open>undefined\<close>, a string or an array of
  strings. \<open>apiError\<close> answers the request with a status code and an error; the only other
  way a wrapper ends is by calling the wrapped handler, whose result is kept. \<open>withLogging\<close>
  calls the function it wraps.
\<close>

datatype QueryValue = Undefined | QueryString string | QueryArray "string list"

record Request =
  query_wId :: QueryValue
  header_userEmail :: QueryValue

record APIError =
  status_code :: nat
  api_error_type :: string
  api_error_message :: string

datatype 'r Response = ApiError APIError | Handled 'r

fun handlerInvoked :: "'r Response \<Rightarrow> bool" where
  "handlerInvoked (Handled r) = True"
| "handlerInvoked (ApiError e) = False"

fun responseStatus :: "'r Response \<Rightarrow> nat option" where
  "responseStatus (ApiError e) = Some (status_code e)"
| "responseStatus (Handled r) = None"

subsection \<open>Session authentication\<close>

text \<open>The argument \<open>session\<close> is what \<open>getSession(req, res)\<close> returned.\<close>

definition withSessionAuthentication :: "('s \<Rightarrow> 'r Response) \<Rightarrow> 's option \<Rightarrow> 'r Response" where
  "withSessionAuthentication handler session =
     (case session of
        None \<Rightarrow>
          ApiError \<lparr>status_code = 401, api_error_type = ''not_authenticated'',
                    api_error_message =
                      ''The user does not have an active session or is not authenticated.''\<rparr>
      | Some s \<Rightarrow> handler s)"

record SessionOpts =
  isStreaming :: "bool option"
  allowUserOutsideCurrentWorkspace :: "bool option"

text \<open>An optional boolean is truthy when it is \<open>true\<close>.\<close>

definition truthy :: "bool option \<Rightarrow> bool" where
  "truthy b = (b = Some True)"

text \<open>
  \<open>getSession\<close> and \<open>Authenticator.fromSession\<close> are parameters: the session of a request,
  and the authenticator of a session for a workspace id.
\<close>

definition withSessionAuthenticationForWorkspace ::
  "(Authenticator \<Rightarrow> 's \<Rightarrow> 'r) \<Rightarrow> SessionOpts \<Rightarrow> (Request \<Rightarrow> 's option)
     \<Rightarrow> ('s \<Rightarrow> string \<Rightarrow> Authenticator) \<Rightarrow> Request \<Rightarrow> 'r Response" where
  "withSessionAuthenticationForWorkspace handler opts getSession fromSession req =
     withSessionAuthentication
       (\<lambda>session.
          case query_wId req of
            QueryString wId \<Rightarrow>
              if wId = [] then
                ApiError \<lparr>status_code = 404, api_error_type = ''workspace_not_found'',
                          api_error_message = ''The workspace was not found.''\<rparr>
              else
                (let auth = fromSession session wId
                 in if workspace auth = None \<or> plan auth = None then
                      ApiError \<lparr>status_code = 404, api_error_type = ''workspace_not_found'',
                                api_error_message = ''The workspace was not found.''\<rparr>
                    else if user auth = None then
                      ApiError \<lparr>status_code = 404, api_error_type = ''workspace_user_not_found'',
                                api_error_message =
                                  ''Could not find the user of the current session.''\<rparr>
                    else if \<not> isUser auth \<and> \<not> truthy (allowUserOutsideCurrentWorkspace opts) then
                      ApiError \<lparr>status_code = 401, api_error_type = ''workspace_auth_error'',
                                api_error_message =
                                  ''Only users of the workspace can access this route.''\<rparr>
                    else Handled (handler auth session))
          | _ \<Rightarrow>
              ApiError \<lparr>status_code = 404, api_error_type = ''workspace_not_found'',
                        api_error_message = ''The workspace was not found.''\<rparr>)
       (getSession req)"

subsection \<open>Public API authentication\<close>




subsection \<open>Rejections of the session wrapper\<close>

text \<open>
  Claim C1. The wrapper makes its checks in the order the claim lists them, so each case is
  stated for a request that has passed the checks before it: with no session the answer is
  401 \<open>not_authenticated\<close>; with a session, a \<open>wId\<close> that is absent, not a string (or empty),
  or for which the workspace, the plan or the user is missing, is answered 404; with all of
  them found, a user who is not a member of the workspace is answered 401
  \<open>workspace_auth_error\<close> unless \<open>allowUserOutsideCurrentWorkspace\<close> is set; and in none of
  these cases is the handler invoked.
\<close>

theorem withSessionAuthenticationForWorkspace_rejects:
  "(getSession req = None \<longrightarrow>
      withSessionAuthenticationForWorkspace handler opts getSession fromSession req
        = ApiError \<lparr>status_code = 401, api_error_type = ''not_authenticated'',
                    api_error_message =
                      ''The user does not have an active session or is not authenticated.''\<rparr>
      \<and> \<not> handlerInvoked
            (withSessionAuthenticationForWorkspace handler opts getSession fromSession req))
   \<and> (getSession req = Some s
        \<and> (query_wId req = Undefined \<or> query_wId req = QueryArray ws
             \<or> query_wId req = QueryString []
             \<or> query_wId req = QueryString wId
                \<and> (workspace (fromSession s wId) = None \<or> plan (fromSession s wId) = None
                     \<or> user (fromSession s wId) = None)) \<longrightarrow>
      responseStatus
          (withSessionAuthenticationForWorkspace handler opts getSession fromSession req)
        = Some 404
      \<and> \<not> handlerInvoked
            (withSessionAuthenticationForWorkspace handler opts getSession fromSession req))
   \<and> (getSession req = Some s \<and> query_wId req = QueryString wId \<and> wId \<noteq> []
        \<and> workspace (fromSession s wId) \<noteq> None \<and> plan (fromSession s wId) \<noteq> None
        \<and> user (fromSession s wId) \<noteq> None
        \<and> \<not> isUser (fromSession s wId)
        \<and> allowUserOutsideCurrentWorkspace opts \<noteq> Some True \<longrightarrow>
      withSessionAuthenticationForWorkspace handler opts getSession fromSession req
        = ApiError \<lparr>status_code = 401, api_error_type = ''workspace_auth_error'',
                    api_error_message = ''Only users of the workspace can access this route.''\<rparr>
      \<and> \<not> handlerInvoked
            (withSessionAuthenticationForWorkspace handler opts getSession fromSession req))"
  by (auto simp: withSessionAuthenticationForWorkspace_def withSessionAuthentication_def
      truthy_def Let_def split: if_splits)

definition exampleOpts :: "bool option \<Rightarrow> SessionOpts" where
  "exampleOpts allow = \<lparr>isStreaming = None, allowUserOutsideCurrentWorkspace = allow\<rparr>"

definition exampleRequest :: "QueryValue \<Rightarrow> Request" where
  "exampleRequest w = \<lparr>query_wId = w, header_userEmail = Undefined\<rparr>"

lemmas example_eval =
  exampleOpts_def exampleRequest_def exampleAuth_def examplePlan_def renderPlanFromModel_def

theorem withSessionAuthenticationForWorkspace_rejects_witness:
  "withSessionAuthenticationForWorkspace (\<lambda>auth session. ''handled'') (exampleOpts None)
       (\<lambda>req. None) (\<lambda>(session :: string) wId. exampleAuth False)
       (exampleRequest (QueryString ''w1''))
     = ApiError \<lparr>status_code = 401, api_error_type = ''not_authenticated'',
                 api_error_message =
                   ''The user does not have an active session or is not authenticated.''\<rparr>
   \<and> responseStatus
       (withSessionAuthenticationForWorkspace (\<lambda>auth session. ''handled'') (exampleOpts None)
          (\<lambda>req. Some ''session'') (\<lambda>session wId. exampleAuth False)
          (exampleRequest Undefined)) = Some 404
   \<and> withSessionAuthenticationForWorkspace (\<lambda>auth session. ''handled'') (exampleOpts None)
       (\<lambda>req. Some ''session'') (\<lambda>session wId. exampleAuth False)
       (exampleRequest (QueryString ''w1''))
     = ApiError \<lparr>status_code = 401, api_error_type = ''workspace_auth_error'',
                 api_error_message = ''Only users of the workspace can access this route.''\<rparr>
   \<and> \<not> handlerInvoked
       (withSessionAuthenticationForWorkspace (\<lambda>auth session. ''handled'') (exampleOpts None)
          (\<lambda>req. Some ''session'') (\<lambda>session wId. exampleAuth False)
          (exampleRequest (QueryString ''w1'')))"
  using
    withSessionAuthenticationForWorkspace_rejects
      [of "\<lambda>req. None" "exampleRequest (QueryString ''w1'')" "\<lambda>auth session. ''handled''"
        "exampleOpts None" "\<lambda>(session :: string) wId. exampleAuth False" "''session''" "[]"
        "''w1''"]
    withSessionAuthenticationForWorkspace_rejects
      [of "\<lambda>req. Some ''session''" "exampleRequest Undefined" "\<lambda>auth session. ''handled''"
        "exampleOpts None" "\<lambda>session wId. exampleAuth False" "''session''" "[]" "''w1''"]
    withSessionAuthenticationForWorkspace_rejects
      [of "\<lambda>req. Some ''session''" "exampleRequest (QueryString ''w1'')"
        "\<lambda>auth session. ''handled''" "exampleOpts None" "\<lambda>session wId. exampleAuth False"
        "''session''" "[]" "''w1''"]
  by (simp add: example_eval)

subsection \<open>Rejections of the public API wrapper\<close>





section \<open>Subscribing a workspace to a plan (front/lib/plans/subscription)\<close>

text \<open>
  The tables the functions read and write. \<open>findOne\<close> returns the first row that matches;
  \<open>update\<close> writes the row with the primary key of the instance; \<open>create\<close> appends a row
  with a fresh primary key and \<open>null\<close> in the columns it is not given. A thrown \<open>Error\<close> is
  \<open>Inl\<close> of its message. A transaction runs its body as one step.
\<close>

record Database =
  workspaces :: "WorkspaceType list"
  plans :: "Plan list"
  subscriptions :: "Subscription list"

text \<open>\<open>x || null\<close> on a nullable string and on a nullable number.\<close>

definition orNull :: "string option \<Rightarrow> string option" where
  "orNull x = (case x of None \<Rightarrow> None | Some s \<Rightarrow> if s = [] then None else Some s)"

definition orNullNumber :: "int option \<Rightarrow> int option" where
  "orNullNumber x = (case x of None \<Rightarrow> None | Some n \<Rightarrow> if n = 0 then None else Some n)"

definition renderSubscriptionFromModels ::
  "'a PlanAttributes_scheme \<Rightarrow> Subscription option \<Rightarrow> SubscriptionType" where
  "renderSubscriptionFromModels p activeSubscription =
     \<lparr>status_SubscriptionType =
        (case activeSubscription of None \<Rightarrow> ''active'' | Some s \<Rightarrow> status s),
      sId_SubscriptionType = orNull (map_option sId activeSubscription),
      stripeSubscriptionId_SubscriptionType =
        orNull (Option.bind activeSubscription stripeSubscriptionId),
      stripeCustomerId_SubscriptionType =
        orNull (Option.bind activeSubscription stripeCustomerId),
      startDate_SubscriptionType = orNullNumber (Option.bind activeSubscription startDate),
      endDate_SubscriptionType = orNullNumber (Option.bind activeSubscription endDate),
      paymentFailingSince_SubscriptionType =
        orNullNumber (Option.bind activeSubscription paymentFailingSince),
      plan_SubscriptionType = renderPlanFromModel p\<rparr>"

definition findWorkspace :: "Database \<Rightarrow> string \<Rightarrow> WorkspaceType option" where
  "findWorkspace db wsId = find (\<lambda>w. sId_workspace w = wsId) (workspaces db)"

definition findPlan :: "Database \<Rightarrow> string \<Rightarrow> Plan option" where
  "findPlan db c = find (\<lambda>p. code_plan p = c) (plans db)"

definition findActiveSubscription :: "Database \<Rightarrow> int \<Rightarrow> Subscription option" where
  "findActiveSubscription db wid =
     find (\<lambda>s. workspaceId s = wid \<and> status s = ''active'') (subscriptions db)"

definition endSubscription :: "Subscription \<Rightarrow> int \<Rightarrow> Database \<Rightarrow> Database" where
  "endSubscription activeSubscription now db =
     db\<lparr>subscriptions :=
          map (\<lambda>s. if id_subscription s = id_subscription activeSubscription
                    then s\<lparr>status := ''ended'', endDate := Some now\<rparr> else s)
            (subscriptions db)\<rparr>"

definition endActiveSubscription :: "Subscription option \<Rightarrow> int \<Rightarrow> Database \<Rightarrow> Database" where
  "endActiveSubscription activeSubscription now db =
     (case activeSubscription of None \<Rightarrow> db | Some a \<Rightarrow> endSubscription a now db)"

definition nextSubscriptionId :: "Database \<Rightarrow> int" where
  "nextSubscriptionId db = foldr max (map id_subscription (subscriptions db)) 0 + 1"

definition createSubscription ::
  "string \<Rightarrow> int \<Rightarrow> int \<Rightarrow> int \<Rightarrow> string option \<Rightarrow> Database \<Rightarrow> Subscription \<times> Database" where
  "createSubscription newSId wid pid now customer db =
     (let newSubscription =
            \<lparr>id_subscription = nextSubscriptionId db, sId = newSId, workspaceId = wid,
             planId = pid, status = ''active'', startDate = Some now, endDate = None,
             stripeSubscriptionId = None, stripeCustomerId = customer,
             paymentFailingSince = None\<rparr>
      in (newSubscription, db\<lparr>subscriptions := subscriptions db @ [newSubscription]\<rparr>))"

text \<open>
  The constants \<open>FREE_NO_PLAN_DATA\<close>, \<open>FREE_TEST_PLAN_CODE\<close> and \<open>FREE_UPGRADED_PLAN_CODE\<close>
  are not among the sources and are parameters, as are the clock (\<open>now\<close>) and the result of
  \<open>generateModelSId()\<close>.
\<close>

definition internalSubscribeWorkspaceToFreeNoPlan ::
  "'a PlanAttributes_scheme \<Rightarrow> int \<Rightarrow> Database \<Rightarrow> string
     \<Rightarrow> string + SubscriptionType \<times> Database" where
  "internalSubscribeWorkspaceToFreeNoPlan FREE_NO_PLAN_DATA now db wsId =
     (case findWorkspace db wsId of
        None \<Rightarrow> Inl (''Cannot find workspace '' @ wsId)
      | Some w \<Rightarrow>
          (let activeSubscription = findActiveSubscription db (id_workspace w);
               db1 = endActiveSubscription activeSubscription now db
           in Inr (renderSubscriptionFromModels FREE_NO_PLAN_DATA None, db1)))"

definition internalSubscribeWorkspaceToFreeTestPlan ::
  "string \<Rightarrow> string \<Rightarrow> int \<Rightarrow> Database \<Rightarrow> string \<Rightarrow> string + SubscriptionType \<times> Database" where
  "internalSubscribeWorkspaceToFreeTestPlan FREE_TEST_PLAN_CODE newSId now db wsId =
     (case findWorkspace db wsId of
        None \<Rightarrow> Inl (''Cannot find workspace '' @ wsId)
      | Some w \<Rightarrow>
          (case findPlan db FREE_TEST_PLAN_CODE of
             None \<Rightarrow> Inl (''Cannot subscribe to plan '' @ FREE_TEST_PLAN_CODE @ '':  not found.'')
           | Some p \<Rightarrow>
               (let activeSubscription = findActiveSubscription db (id_workspace w);
                    db1 = endActiveSubscription activeSubscription now db;
                    (newSubscription, db2) =
                      createSubscription newSId (id_workspace w) (id_plan p) now
                        (orNull (Option.bind activeSubscription stripeCustomerId)) db1
                in Inr (renderSubscriptionFromModels p (Some newSubscription), db2))))"

definition internalSubscribeWorkspaceToFreeUpgradedPlan ::
  "string \<Rightarrow> string \<Rightarrow> int \<Rightarrow> Database \<Rightarrow> string \<Rightarrow> string option
     \<Rightarrow> string + SubscriptionType \<times> Database" where
  "internalSubscribeWorkspaceToFreeUpgradedPlan FREE_UPGRADED_PLAN_CODE newSId now db wsId
     planCodeArg =
     (let planCode = (case planCodeArg of None \<Rightarrow> FREE_UPGRADED_PLAN_CODE | Some c \<Rightarrow> c)
      in case findWorkspace db wsId of
           None \<Rightarrow> Inl (''Cannot find workspace '' @ wsId)
         | Some w \<Rightarrow>
             (case findPlan db planCode of
                None \<Rightarrow> Inl (''Cannot subscribe to plan '' @ planCode @ '':  not found.'')
              | Some p \<Rightarrow>
                  (let activeSubscription = findActiveSubscription db (id_workspace w)
                   in if (case activeSubscription of
                            None \<Rightarrow> False | Some a \<Rightarrow> planId a = id_plan p)
                      then Inl (''Cannot subscribe to plan '' @ planCode
                                @ '': already subscribed.'')
                      else
                        (let db1 = endActiveSubscription activeSubscription now db;
                             (newSubscription, db2) =
                               createSubscription newSId (id_workspace w) (id_plan p) now
                                 (orNull (Option.bind activeSubscription stripeCustomerId)) db1
                         in Inr (renderSubscriptionFromModels p (Some newSubscription), db2)))))"


subsection \<open>At most one active subscription\<close>

definition activeSubscriptions :: "Database \<Rightarrow> int \<Rightarrow> Subscription list" where
  "activeSubscriptions db wid =
     filter (\<lambda>s. workspaceId s = wid \<and> status s = ''active'') (subscriptions db)"

text \<open>
  Every subscription of the workspace that was active in \<open>db\<close> is in \<open>db'\<close> with status
  \<open>ended\<close> and end date \<open>now\<close>; and the customer id a new subscription is created with.
\<close>

definition previousEnded :: "Database \<Rightarrow> Database \<Rightarrow> int \<Rightarrow> int \<Rightarrow> bool" where
  "previousEnded db db' wid now =
     list_all (\<lambda>a. a\<lparr>status := ''ended'', endDate := Some now\<rparr> \<in> set (subscriptions db'))
       (activeSubscriptions db wid)"

definition carriedCustomerId :: "Database \<Rightarrow> int \<Rightarrow> string option" where
  "carriedCustomerId db wid =
     (case activeSubscriptions db wid of [] \<Rightarrow> None | a # _ \<Rightarrow> orNull (stripeCustomerId a))"

lemma find_None_filter: "find P xs = None \<Longrightarrow> filter P xs = []"
  by (induction xs) (auto split: if_splits)

lemma find_Some_filter: "find P xs = Some a \<Longrightarrow> \<exists>rest. filter P xs = a # rest"
  by (induction xs) (auto split: if_splits)

lemma active_none:
  "findActiveSubscription db wid = None \<Longrightarrow> activeSubscriptions db wid = []"
  unfolding findActiveSubscription_def activeSubscriptions_def by (rule find_None_filter)

lemma active_single:
  assumes "findActiveSubscription db wid = Some a"
    and "length (activeSubscriptions db wid) \<le> 1"
  shows "activeSubscriptions db wid = [a]"
proof -
  from assms(1) obtain rest where "activeSubscriptions db wid = a # rest"
    unfolding findActiveSubscription_def activeSubscriptions_def
    by (blast dest: find_Some_filter)
  with assms(2) show ?thesis by simp
qed

lemma active_endSubscription:
  "activeSubscriptions (endSubscription a now db) wid
     = filter (\<lambda>s. id_subscription s \<noteq> id_subscription a) (activeSubscriptions db wid)"
proof -
  have "filter (\<lambda>s. workspaceId s = wid \<and> status s = ''active'')
          (map (\<lambda>s. if id_subscription s = id_subscription a
                     then s\<lparr>status := ''ended'', endDate := Some now\<rparr> else s) xs)
        = filter (\<lambda>s. id_subscription s \<noteq> id_subscription a)
            (filter (\<lambda>s. workspaceId s = wid \<and> status s = ''active'') xs)" for xs
    by (induction xs) auto
  then show ?thesis
    by (simp add: activeSubscriptions_def endSubscription_def)
qed

lemma active_after_end:
  assumes "length (activeSubscriptions db wid) \<le> 1"
  shows "activeSubscriptions
           (endActiveSubscription (findActiveSubscription db wid) now db) wid = []"
proof (cases "findActiveSubscription db wid")
  case None
  then show ?thesis by (simp add: endActiveSubscription_def active_none)
next
  case (Some a)
  from Some assms have "activeSubscriptions db wid = [a]" by (rule active_single)
  with Some show ?thesis by (simp add: endActiveSubscription_def active_endSubscription)
qed

lemma ended_in_endSubscription:
  "a \<in> set (subscriptions db)
     \<Longrightarrow> a\<lparr>status := ''ended'', endDate := Some now\<rparr> \<in> set (subscriptions (endSubscription a now db))"
proof -
  assume "a \<in> set (subscriptions db)"
  then have "(if id_subscription a = id_subscription a
              then a\<lparr>status := ''ended'', endDate := Some now\<rparr> else a)
             \<in> (\<lambda>s. if id_subscription s = id_subscription a
                       then s\<lparr>status := ''ended'', endDate := Some now\<rparr> else s)
                 ` set (subscriptions db)"
    by (rule imageI)
  then show ?thesis by (simp add: endSubscription_def)
qed

lemma previousEnded_after_end:
  assumes "length (activeSubscriptions db wid) \<le> 1"
  shows "previousEnded db (endActiveSubscription (findActiveSubscription db wid) now db) wid now"
proof (cases "findActiveSubscription db wid")
  case None
  then show ?thesis by (simp add: previousEnded_def active_none)
next
  case (Some a)
  from Some assms have single: "activeSubscriptions db wid = [a]" by (rule active_single)
  then have "a \<in> set (activeSubscriptions db wid)" by simp
  then have "a \<in> set (subscriptions db)"
    by (simp add: activeSubscriptions_def)
  then have "a\<lparr>status := ''ended'', endDate := Some now\<rparr>
               \<in> set (subscriptions (endSubscription a now db))"
    by (rule ended_in_endSubscription)
  then show ?thesis
    using Some single by (simp add: previousEnded_def endActiveSubscription_def)
qed

lemma carried_eq:
  assumes "length (activeSubscriptions db wid) \<le> 1"
  shows "orNull (Option.bind (findActiveSubscription db wid) stripeCustomerId)
           = carriedCustomerId db wid"
proof (cases "findActiveSubscription db wid")
  case None
  then show ?thesis by (simp add: carriedCustomerId_def active_none orNull_def)
next
  case (Some a)
  from Some assms have "activeSubscriptions db wid = [a]" by (rule active_single)
  with Some show ?thesis by (simp add: carriedCustomerId_def)
qed

lemma active_createSubscription:
  "createSubscription newSId wid pid now customer db1 = (new, db2)
     \<Longrightarrow> activeSubscriptions db2 wid = activeSubscriptions db1 wid @ [new]
         \<and> stripeCustomerId new = customer
         \<and> set (subscriptions db1) \<subseteq> set (subscriptions db2)"
  by (auto simp: createSubscription_def activeSubscriptions_def Let_def)

lemma previousEnded_mono:
  "previousEnded db db1 wid now \<Longrightarrow> set (subscriptions db1) \<subseteq> set (subscriptions db2)
     \<Longrightarrow> previousEnded db db2 wid now"
  by (auto simp: previousEnded_def list_all_iff)

lemma end_and_create:
  assumes one: "length (activeSubscriptions db wid) \<le> 1"
    and c: "createSubscription newSId wid pid now
              (orNull (Option.bind (findActiveSubscription db wid) stripeCustomerId))
              (endActiveSubscription (findActiveSubscription db wid) now db) = (new, db2)"
  shows "activeSubscriptions db2 wid = [new]
       \<and> stripeCustomerId new = carriedCustomerId db wid
       \<and> previousEnded db db2 wid now"
proof -
  note cr = active_createSubscription [OF c]
  have "activeSubscriptions db2 wid = [new]"
    using cr active_after_end [OF one, of now] by simp
  moreover have "stripeCustomerId new = carriedCustomerId db wid"
    using cr carried_eq [OF one] by simp
  moreover have "previousEnded db db2 wid now"
    using previousEnded_after_end [OF one, of now] cr by (blast intro: previousEnded_mono)
  ultimately show ?thesis by simp
qed

definition exampleSubscription :: "int \<Rightarrow> string option \<Rightarrow> Subscription" where
  "exampleSubscription i customer =
     \<lparr>id_subscription = i, sId = ''sub'', workspaceId = 1, planId = 2, status = ''active'',
      startDate = Some 1000, endDate = None, stripeSubscriptionId = None,
      stripeCustomerId = customer, paymentFailingSince = None\<rparr>"

definition exampleDatabase :: "Plan list \<Rightarrow> Subscription list \<Rightarrow> Database" where
  "exampleDatabase ps subs =
     \<lparr>workspaces = [\<lparr>id_workspace = 1, sId_workspace = ''w1''\<rparr>], plans = ps,
      subscriptions = subs\<rparr>"

definition examplePlans :: "Plan list" where
  "examplePlans =
     [examplePlan ''FREE_TEST_PLAN'' 1, examplePlan ''PRO'' 2,
      examplePlan ''FREE_UPGRADED_PLAN'' 3]"

lemmas subscription_eval =
  internalSubscribeWorkspaceToFreeNoPlan_def internalSubscribeWorkspaceToFreeTestPlan_def
  internalSubscribeWorkspaceToFreeUpgradedPlan_def findWorkspace_def findPlan_def
  findActiveSubscription_def endActiveSubscription_def endSubscription_def
  createSubscription_def nextSubscriptionId_def orNull_def orNullNumber_def
  activeSubscriptions_def exampleDatabase_def exampleSubscription_def examplePlans_def
  examplePlan_def Let_def

text \<open>
  Claim C3, as stated, at two inputs. A workspace that has two active subscriptions still
  has two after \<open>internalSubscribeWorkspaceToFreeTestPlan\<close>: \<open>findOne\<close> ends one of them and
  a new one is created. And a previous subscription whose \<open>stripeCustomerId\<close> is the empty
  string is not carried over: \<open>stripeCustomerId || null\<close> is \<open>null\<close>.
\<close>

theorem subscribe_counterexample:
  "length (activeSubscriptions
       (snd (projr (internalSubscribeWorkspaceToFreeTestPlan ''FREE_TEST_PLAN'' ''new'' 5000
          (exampleDatabase examplePlans [exampleSubscription 1 None, exampleSubscription 2 None])
          ''w1'')))
       1) = 2
   \<and> map stripeCustomerId
       (activeSubscriptions
          (snd (projr (internalSubscribeWorkspaceToFreeTestPlan ''FREE_TEST_PLAN'' ''new'' 5000
             (exampleDatabase examplePlans [exampleSubscription 1 (Some [])]) ''w1'')))
          1) = [None]
   \<and> map stripeCustomerId
       (activeSubscriptions (exampleDatabase examplePlans [exampleSubscription 1 (Some [])]) 1)
       = [Some []]"
  by (simp add: subscription_eval)

text \<open>
  Claim C3, amended: for every workspace that exists and has at most one active
  subscription, after any one of the three functions completes successfully the workspace has
  at most one active subscription (none after \<open>internalSubscribeWorkspaceToFreeNoPlan\<close>, the
  new one after the two others); the previously active subscription, if any, has status
  \<open>ended\<close> and end date \<open>now\<close>; and the new active subscription of the test and upgraded
  plans has the \<open>stripeCustomerId\<close> of the previous one when that is a non-empty string, and
  \<open>null\<close> otherwise.
\<close>

theorem subscribe_keeps_one_active:
  assumes "findWorkspace db wsId = Some w"
    and "length (activeSubscriptions db (id_workspace w)) \<le> 1"
  shows "(internalSubscribeWorkspaceToFreeNoPlan noPlan now db wsId = Inr (r, db') \<longrightarrow>
            activeSubscriptions db' (id_workspace w) = []
          \<and> previousEnded db db' (id_workspace w) now)
       \<and> (internalSubscribeWorkspaceToFreeTestPlan testCode newSId now db wsId = Inr (r, db') \<longrightarrow>
            (\<exists>new. activeSubscriptions db' (id_workspace w) = [new]
                \<and> stripeCustomerId new = carriedCustomerId db (id_workspace w))
          \<and> length (activeSubscriptions db' (id_workspace w)) \<le> 1
          \<and> previousEnded db db' (id_workspace w) now)
       \<and> (internalSubscribeWorkspaceToFreeUpgradedPlan upgradedCode newSId now db wsId planCode
            = Inr (r, db') \<longrightarrow>
            (\<exists>new. activeSubscriptions db' (id_workspace w) = [new]
                \<and> stripeCustomerId new = carriedCustomerId db (id_workspace w))
          \<and> length (activeSubscriptions db' (id_workspace w)) \<le> 1
          \<and> previousEnded db db' (id_workspace w) now)"
proof (intro conjI impI)
  assume "internalSubscribeWorkspaceToFreeNoPlan noPlan now db wsId = Inr (r, db')"
  with assms(1) have db': "db' = endActiveSubscription
      (findActiveSubscription db (id_workspace w)) now db"
    by (simp add: internalSubscribeWorkspaceToFreeNoPlan_def Let_def)
  show "activeSubscriptions db' (id_workspace w) = []"
    unfolding db' by (rule active_after_end [OF assms(2)])
  show "previousEnded db db' (id_workspace w) now"
    unfolding db' by (rule previousEnded_after_end [OF assms(2)])
next
  assume t: "internalSubscribeWorkspaceToFreeTestPlan testCode newSId now db wsId = Inr (r, db')"
  with assms(1) obtain p where p: "findPlan db testCode = Some p"
    by (cases "findPlan db testCode")
      (auto simp: internalSubscribeWorkspaceToFreeTestPlan_def)
  obtain new db2 where c:
    "createSubscription newSId (id_workspace w) (id_plan p) now
       (orNull (Option.bind (findActiveSubscription db (id_workspace w)) stripeCustomerId))
       (endActiveSubscription (findActiveSubscription db (id_workspace w)) now db) = (new, db2)"
    by (rule prod.exhaust)
  with t assms(1) p have "db' = db2"
    by (simp add: internalSubscribeWorkspaceToFreeTestPlan_def Let_def)
  with end_and_create [OF assms(2) c]
  have res: "activeSubscriptions db' (id_workspace w) = [new]
       \<and> stripeCustomerId new = carriedCustomerId db (id_workspace w)
       \<and> previousEnded db db' (id_workspace w) now"
    by simp
  then show "\<exists>new. activeSubscriptions db' (id_workspace w) = [new]
                \<and> stripeCustomerId new = carriedCustomerId db (id_workspace w)"
    by blast
  from res show "length (activeSubscriptions db' (id_workspace w)) \<le> 1" by simp
  from res show "previousEnded db db' (id_workspace w) now" by simp
next
  assume u: "internalSubscribeWorkspaceToFreeUpgradedPlan upgradedCode newSId now db wsId planCode
            = Inr (r, db')"
  define c where "c = (case planCode of None \<Rightarrow> upgradedCode | Some x \<Rightarrow> x)"
  from u assms(1) obtain p where p: "findPlan db c = Some p"
    by (cases "findPlan db c")
      (auto simp: internalSubscribeWorkspaceToFreeUpgradedPlan_def c_def)
  obtain new db2 where cr:
    "createSubscription newSId (id_workspace w) (id_plan p) now
       (orNull (Option.bind (findActiveSubscription db (id_workspace w)) stripeCustomerId))
       (endActiveSubscription (findActiveSubscription db (id_workspace w)) now db) = (new, db2)"
    by (rule prod.exhaust)
  with u assms(1) p have "db' = db2"
    by (simp add: internalSubscribeWorkspaceToFreeUpgradedPlan_def Let_def c_def [symmetric]
        split: if_splits)
  with end_and_create [OF assms(2) cr]
  have res: "activeSubscriptions db' (id_workspace w) = [new]
       \<and> stripeCustomerId new = carriedCustomerId db (id_workspace w)
       \<and> previousEnded db db' (id_workspace w) now"
    by simp
  then show "\<exists>new. activeSubscriptions db' (id_workspace w) = [new]
                \<and> stripeCustomerId new = carriedCustomerId db (id_workspace w)"
    by blast
  from res show "length (activeSubscriptions db' (id_workspace w)) \<le> 1" by simp
  from res show "previousEnded db db' (id_workspace w) now" by simp
qed

theorem subscribe_keeps_one_active_witness:
  "findWorkspace (exampleDatabase examplePlans [exampleSubscription 1 (Some ''cus_1'')]) ''w1''
     = Some \<lparr>id_workspace = 1, sId_workspace = ''w1''\<rparr>
   \<and> length (activeSubscriptions
         (exampleDatabase examplePlans [exampleSubscription 1 (Some ''cus_1'')]) 1) \<le> 1
   \<and> \<not> isl (internalSubscribeWorkspaceToFreeTestPlan ''FREE_TEST_PLAN'' ''new'' 5000
         (exampleDatabase examplePlans [exampleSubscription 1 (Some ''cus_1'')]) ''w1'')
   \<and> map stripeCustomerId
       (activeSubscriptions
          (snd (projr (internalSubscribeWorkspaceToFreeTestPlan ''FREE_TEST_PLAN'' ''new'' 5000
             (exampleDatabase examplePlans [exampleSubscription 1 (Some ''cus_1'')]) ''w1'')))
          1) = [Some ''cus_1'']
   \<and> previousEnded (exampleDatabase examplePlans [exampleSubscription 1 (Some ''cus_1'')])
       (snd (projr (internalSubscribeWorkspaceToFreeTestPlan ''FREE_TEST_PLAN'' ''new'' 5000
          (exampleDatabase examplePlans [exampleSubscription 1 (Some ''cus_1'')]) ''w1'')))
       1 5000"
proof -
  define D where "D = exampleDatabase examplePlans [exampleSubscription 1 (Some ''cus_1'')]"
  define X where
    "X = internalSubscribeWorkspaceToFreeTestPlan ''FREE_TEST_PLAN'' ''new'' 5000 D ''w1''"
  have h1: "findWorkspace D ''w1'' = Some \<lparr>id_workspace = 1, sId_workspace = ''w1''\<rparr>"
    by (simp add: D_def subscription_eval)
  have h2: "length (activeSubscriptions D
              (id_workspace \<lparr>id_workspace = 1, sId_workspace = ''w1''\<rparr>)) \<le> 1"
    by (simp add: D_def subscription_eval)
  have x: "\<not> isl X"
    by (simp add: X_def D_def subscription_eval)
  then have eq: "X = Inr (fst (projr X), snd (projr X))"
    by (cases X) auto
  have c: "carriedCustomerId D 1 = Some ''cus_1''"
    by (simp add: carriedCustomerId_def D_def subscription_eval)
  from subscribe_keeps_one_active
         [OF h1 h2, of "examplePlan ''FREE_NO_PLAN'' 0" 5000 "fst (projr X)" "snd (projr X)"
           "''FREE_TEST_PLAN''" "''new''" "''FREE_UPGRADED_PLAN''" None]
  have "(\<exists>new. activeSubscriptions (snd (projr X)) 1 = [new]
            \<and> stripeCustomerId new = carriedCustomerId D 1)
        \<and> previousEnded D (snd (projr X)) 1 5000"
    using eq by (simp add: X_def [symmetric])
  with c have "map stripeCustomerId (activeSubscriptions (snd (projr X)) 1) = [Some ''cus_1'']
        \<and> previousEnded D (snd (projr X)) 1 5000"
    by auto
  with h1 h2 x show ?thesis
    by (simp add: X_def D_def)
qed

subsection \<open>Downgrading to the free plan\<close>





section \<open>Including a conversation file (front/lib/api/assistant/actions)\<close>

text \<open>
  The content types of \<open>SupportedContentFragmentType\<close>, in the order of the schema: nine text
  types, two image types and the legacy Slack type.
\<close>

datatype SupportedContentFragmentType =
    application_msword
  | application_wordprocessingml_document
  | application_pdf
  | text_comma_separated_values
  | text_csv
  | text_markdown
  | text_plain
  | text_tab_separated_values
  | text_tsv
  | image_jpeg
  | image_png
  | dust_application_slack



record ContentFragmentType =
  sId_fragment :: string
  title_fragment :: string
  fileId_fragment :: "string option"
  contentType_fragment :: SupportedContentFragmentType

datatype MessageType =
    UserMessage string
  | AgentMessage string
  | ContentFragment ContentFragmentType





record FunctionMessageTypeModel =
  role :: string
  name_message :: string
  function_call_id :: string
  content :: string





subsection \<open>What the rendered function message holds\<close>














end
